theory Spec2Isabelle
  imports Main
begin

section \<open>Python values, exceptions and string primitives\<close>

text \<open>
  The module \<^verbatim>\<open>thaplmagic.py\<close> is Python 3 (it opens files with an \<^verbatim>\<open>encoding\<close>
  keyword). The source has no \<^verbatim>\<open>raise\<close> of its own: every exception comes from a
  builtin or a library call. The exceptions those calls raise are values of \<open>error\<close>.
  In Python 3 \<^verbatim>\<open>IOError\<close> is an alias of \<^verbatim>\<open>OSError\<close>, so both handlers of the source
  (\<^verbatim>\<open>except OSError\<close>, \<^verbatim>\<open>except IOError\<close>) catch \<open>OSError\<close>.
  \<open>Unmodelled\<close> is no Python exception: it marks the corners of the \<^verbatim>\<open>%\<close> operator
  (padding, floats, \<^verbatim>\<open>repr\<close>) that this development does not describe and that no
  template of the source reaches.
\<close>

datatype error =
  ValueError | AttributeError | TypeError | KeyError | OSError
  | LookupError | UnicodeError | ExpatError | Unmodelled

datatype pyval = PStr string | PInt int | PBool bool | PNone | PStrList "string list"

abbreviation bsl :: char where "bsl \<equiv> CHR 0x5C"

abbreviation nl :: char where "nl \<equiv> CHR 0x0A"

text \<open>\<^verbatim>\<open>s.split(sep)\<close> for a one-character separator: every occurrence splits, and the
  result is never empty (\<^verbatim>\<open>''.split(',') == ['']\<close>).\<close>

fun py_split :: "char \<Rightarrow> string \<Rightarrow> string list" where
  "py_split sep [] = [[]]"
| "py_split sep (c # cs) =
     (if c = sep then [] # py_split sep cs
      else (case py_split sep cs of
              [] \<Rightarrow> [[c]]
            | p # ps \<Rightarrow> (c # p) # ps))"

text \<open>\<^verbatim>\<open>a, b = xs\<close>: unpacking into two targets raises ValueError unless \<open>xs\<close> has exactly
  two items.\<close>

definition unpack2 :: "'a list \<Rightarrow> error + 'a \<times> 'a" where
  "unpack2 xs = (case xs of [x, y] \<Rightarrow> Inr (x, y) | _ \<Rightarrow> Inl ValueError)"

text \<open>\<^verbatim>\<open>(x, ) = xs\<close>: unpacking into one target.\<close>

definition unpack1 :: "'a list \<Rightarrow> error + 'a" where
  "unpack1 xs = (case xs of [x] \<Rightarrow> Inr x | _ \<Rightarrow> Inl ValueError)"

subsection \<open>Decimal rendering and \<^verbatim>\<open>int()\<close>\<close>

definition digit_char :: "nat \<Rightarrow> char" where
  "digit_char d = ''0123456789'' ! d"

fun str_nat :: "nat \<Rightarrow> string" where
  "str_nat n = (if n < 10 then [digit_char n] else str_nat (n div 10) @ [digit_char (n mod 10)])"

declare str_nat.simps [simp del]

text \<open>\<^verbatim>\<open>str(n)\<close> and \<^verbatim>\<open>'%d' % n\<close> for an integer.\<close>

definition str_int :: "int \<Rightarrow> string" where
  "str_int i = (if i < 0 then CHR ''-'' # str_nat (nat (- i)) else str_nat (nat i))"

definition digit_val :: "char \<Rightarrow> nat option" where
  "digit_val c =
     (let k = (of_char c :: nat) in if 48 \<le> k \<and> k \<le> 57 then Some (k - 48) else None)"

text \<open>The digits of an integer literal as \<^verbatim>\<open>int()\<close> reads them: decimal digits, single
  underscores allowed between digits only. The flag says whether the previous character
  was a digit.\<close>

fun digits_acc :: "bool \<Rightarrow> nat \<Rightarrow> string \<Rightarrow> nat option" where
  "digits_acc prev n [] = (if prev then Some n else None)"
| "digits_acc prev n (c # cs) =
     (case digit_val c of
        Some d \<Rightarrow> digits_acc True (10 * n + d) cs
      | None \<Rightarrow> (if c = CHR ''_'' \<and> prev then digits_acc False n cs else None))"

definition is_space :: "char \<Rightarrow> bool" where
  "is_space c = (c \<in> set [CHR '' '', CHR 0x09, CHR 0x0A, CHR 0x0B, CHR 0x0C, CHR 0x0D])"

definition py_strip :: "string \<Rightarrow> string" where
  "py_strip s = rev (dropWhile is_space (rev (dropWhile is_space s)))"

text \<open>\<^verbatim>\<open>int(s)\<close> for an ASCII string \<open>s\<close>: surrounding whitespace is stripped, one sign is
  allowed, anything else raises ValueError.\<close>

definition py_int :: "string \<Rightarrow> error + int" where
  "py_int s =
     (case py_strip s of
        [] \<Rightarrow> Inl ValueError
      | c # cs \<Rightarrow>
          (if c = CHR ''-'' then
             (case digits_acc False 0 cs of None \<Rightarrow> Inl ValueError | Some n \<Rightarrow> Inr (- int n))
           else if c = CHR ''+'' then
             (case digits_acc False 0 cs of None \<Rightarrow> Inl ValueError | Some n \<Rightarrow> Inr (int n))
           else
             (case digits_acc False 0 (c # cs) of None \<Rightarrow> Inl ValueError | Some n \<Rightarrow> Inr (int n))))"

subsection \<open>The \<^verbatim>\<open>%\<close> operator on strings\<close>

text \<open>
  The right operand of \<^verbatim>\<open>fmt % args\<close> is a mapping (\<^verbatim>\<open>locals()\<close>), or positional values:
  a tuple, or a single value that is neither a tuple nor a mapping, which CPython treats
  as a one-item tuple.
\<close>

datatype fmt_args = Named "(string \<times> pyval) list" | Positional "pyval list"

text \<open>The value a conversion consumes: the value looked up under the key, or the next
  positional one (TypeError: not enough arguments for format string).\<close>

definition next_arg :: "fmt_args \<Rightarrow> pyval option \<Rightarrow> error + pyval \<times> fmt_args" where
  "next_arg args keyed =
     (case keyed of
        Some v \<Rightarrow> Inr (v, args)
      | None \<Rightarrow>
          (case args of
             Positional [] \<Rightarrow> Inl TypeError
           | Positional (v # vs) \<Rightarrow> Inr (v, Positional vs)
           | Named m \<Rightarrow> Inl Unmodelled))"

text \<open>One conversion. \<open>modified\<close> says that flags, a width or a precision were given.
  A character outside CPython's conversion types raises ValueError (unsupported format
  character); \<^verbatim>\<open>%d\<close> of a string raises TypeError.\<close>

definition convert :: "char \<Rightarrow> bool \<Rightarrow> pyval \<Rightarrow> error + string" where
  "convert c modified v =
     (if c = CHR ''s'' then
        (case v of
           PStr s \<Rightarrow> if modified then Inl Unmodelled else Inr s
         | PInt n \<Rightarrow> if modified then Inl Unmodelled else Inr (str_int n)
         | _ \<Rightarrow> Inl Unmodelled)
      else if c = CHR ''d'' \<or> c = CHR ''i'' then
        (case v of
           PInt n \<Rightarrow> if modified then Inl Unmodelled else Inr (str_int n)
         | PBool b \<Rightarrow> if modified then Inl Unmodelled else Inr (if b then ''1'' else ''0'')
         | _ \<Rightarrow> Inl TypeError)
      else if c \<in> set ''ouxXeEfFgGcra'' then Inl Unmodelled
      else Inl ValueError)"

text \<open>
  The scanner of CPython's \<^verbatim>\<open>PyUnicode_Format\<close>: literal text; \<^verbatim>\<open>%%\<close> is a percent sign;
  after any other \<^verbatim>\<open>%\<close> come an optional parenthesised key (looked up at once:
  KeyError), then flags (stage 0), width (stage 1), precision (stage 2), one length
  modifier (stage 3) and the conversion character. The value is fetched before the
  conversion character is judged. Left-over positional values raise TypeError at the
  end.
\<close>

fun format_lit :: "fmt_args \<Rightarrow> string \<Rightarrow> string \<Rightarrow> error + string"
  and format_key :: "(string \<times> pyval) list \<Rightarrow> string \<Rightarrow> nat \<Rightarrow> string \<Rightarrow> string \<Rightarrow> error + string"
  and format_spec :: "fmt_args \<Rightarrow> string \<Rightarrow> pyval option \<Rightarrow> nat \<Rightarrow> bool \<Rightarrow> string \<Rightarrow> error + string"
where
  "format_lit args acc [] =
     (case args of Positional (v # vs) \<Rightarrow> Inl TypeError | _ \<Rightarrow> Inr acc)"
| "format_lit args acc (c # cs) =
     (if c = CHR ''%'' then
        (case cs of
           [] \<Rightarrow> Inl ValueError
         | d # ds \<Rightarrow>
             (if d = CHR ''%'' then format_lit args (acc @ ''%'') ds
              else if d = CHR ''('' then
                (case args of
                   Named m \<Rightarrow> format_key m acc 1 [] ds
                 | Positional vs \<Rightarrow> Inl TypeError)
              else format_spec args acc None 0 False (d # ds)))
      else format_lit args (acc @ [c]) cs)"
| "format_key m acc depth key [] = Inl ValueError"
| "format_key m acc depth key (c # cs) =
     (if c = CHR '')'' \<and> depth = 1 then
        (case map_of m key of
           None \<Rightarrow> Inl KeyError
         | Some v \<Rightarrow> format_spec (Named m) acc (Some v) 0 False cs)
      else format_key m acc
             (if c = CHR '')'' then depth - 1 else if c = CHR ''('' then depth + 1 else depth)
             (key @ [c]) cs)"
| "format_spec args acc keyed stage modified [] = Inl ValueError"
| "format_spec args acc keyed stage modified (c # cs) =
     (if stage = 0 \<and> c \<in> set ''-+ #0'' then format_spec args acc keyed 0 True cs
      else if stage \<le> 1 \<and> c \<in> set ''0123456789'' then format_spec args acc keyed 1 True cs
      else if stage \<le> 1 \<and> c = CHR ''.'' then format_spec args acc keyed 2 True cs
      else if stage = 2 \<and> c \<in> set ''0123456789'' then format_spec args acc keyed 2 True cs
      else if stage \<le> 2 \<and> c = CHR ''*'' then Inl Unmodelled
      else if stage \<le> 2 \<and> c \<in> set ''hlL'' then format_spec args acc keyed 3 modified cs
      else
        (case next_arg args keyed of
           Inl e \<Rightarrow> Inl e
         | Inr (v, args') \<Rightarrow>
             (case convert c modified v of
                Inl e \<Rightarrow> Inl e
              | Inr s \<Rightarrow> format_lit args' (acc @ s) cs)))"

definition pyformat :: "string \<Rightarrow> fmt_args \<Rightarrow> error + string" where
  "pyformat fmt args = format_lit args [] fmt"

section \<open>The environment: files, process state, external tools\<close>

text \<open>
  What the module touches outside itself is a \<open>world\<close>: the file system, the working
  directory, \<^verbatim>\<open>os.environ\<close>, the two output streams (one entry for each \<^verbatim>\<open>print\<close>), the
  payloads handed to \<^verbatim>\<open>publish_display_data\<close> and the subprocesses started, each with
  the environment it received. Paths are POSIX paths compared as strings.

  The collaborators are parameters, the fields of \<open>host\<close>: the name \<^verbatim>\<open>tempfile.mkdtemp\<close>
  picks, what a shell command does to the files and how it exits, the text codecs, and
  minidom's parser and serialiser. A subprocess changes files only: it cannot change its
  parent's environment or working directory.

  Of the operating system's failures the model has: opening for reading what is not a
  regular file, copying from such a path or onto itself, removing a tree that is not a
  directory, and a subprocess that cannot be launched. Writing a file, \<^verbatim>\<open>chdir\<close> and
  \<^verbatim>\<open>mkdtemp\<close> are taken to succeed.
\<close>

datatype node = File string | Dir

type_synonym filesystem = "string \<rightharpoonup> node"

type_synonym environment = "string \<rightharpoonup> string"

datatype call_result = Exit int | LaunchFailed string

datatype xml = Element string "(string \<times> string) list" "xml list" | Text string

record payload =
  source :: string
  data :: "(string \<times> string) list"
  metadata :: "(string \<times> string) list option"

record world =
  files :: filesystem
  cwd :: string
  environ :: environment
  stdout :: "string list"
  stderr :: "string list"
  published :: "payload list"
  calls :: "(string \<times> environment) list"

record host =
  mkdtemp_name :: "filesystem \<Rightarrow> string"
  run :: "string \<Rightarrow> environment \<Rightarrow> string \<Rightarrow> filesystem \<Rightarrow> call_result \<times> filesystem"
  encode :: "string \<Rightarrow> string \<Rightarrow> error + string"
  decode :: "string \<Rightarrow> error + string"
  parse_xml :: "string \<Rightarrow> xml option"
  toxml :: "xml \<Rightarrow> string"

datatype outcome = Returned | Raised error

definition path_sep :: string where
  "path_sep = ''/''"

definition pathsep :: string where
  "pathsep = '':''"

text \<open>\<^verbatim>\<open>os.path.isabs\<close>; a relative path is read from the working directory.\<close>

definition isabs :: "string \<Rightarrow> bool" where
  "isabs p = (case p of [] \<Rightarrow> False | c # cs \<Rightarrow> c = CHR ''/'')"

definition resolve :: "world \<Rightarrow> string \<Rightarrow> string" where
  "resolve w p = (if isabs p then p else cwd w @ path_sep @ p)"

definition basename :: "string \<Rightarrow> string" where
  "basename p = last (py_split CHR ''/'' p)"

text \<open>\<open>under d p\<close>: \<open>p\<close> is the directory \<open>d\<close> or lies below it.\<close>

definition under :: "string \<Rightarrow> string \<Rightarrow> bool" where
  "under d p = (p = d \<or> take (length d + 1) p = d @ path_sep)"

definition print_out :: "string \<Rightarrow> world \<Rightarrow> world" where
  "print_out s w = w\<lparr>stdout := stdout w @ [s]\<rparr>"

definition print_err :: "string \<Rightarrow> world \<Rightarrow> world" where
  "print_err s w = w\<lparr>stderr := stderr w @ [s]\<rparr>"

definition publish :: "payload \<Rightarrow> world \<Rightarrow> world" where
  "publish p w = w\<lparr>published := published w @ [p]\<rparr>"

text \<open>\<^verbatim>\<open>tempfile.mkdtemp()\<close>: a new directory.\<close>

definition mkdtemp :: "host \<Rightarrow> world \<Rightarrow> string \<times> world" where
  "mkdtemp h w =
     (let d = mkdtemp_name h (files w) in (d, w\<lparr>files := (files w)(d \<mapsto> Dir)\<rparr>))"

text \<open>\<^verbatim>\<open>with open(p, 'w', encoding=enc) as f: f.write(txt)\<close>: the file is created or
  truncated before the codec is looked up and before the text is encoded, so a
  LookupError or a UnicodeError leaves an empty file.\<close>

definition write_text :: "host \<Rightarrow> string \<Rightarrow> string \<Rightarrow> string \<Rightarrow> world \<Rightarrow> (error + unit) \<times> world" where
  "write_text h p enc txt w =
     (case encode h enc txt of
        Inl e \<Rightarrow> (Inl e, w\<lparr>files := (files w)(resolve w p \<mapsto> File [])\<rparr>)
      | Inr b \<Rightarrow> (Inr (), w\<lparr>files := (files w)(resolve w p \<mapsto> File b)\<rparr>))"

text \<open>\<^verbatim>\<open>open(p, 'rb').read()\<close>.\<close>

definition read_bytes :: "string \<Rightarrow> world \<Rightarrow> error + string" where
  "read_bytes p w = (case files w (resolve w p) of Some (File b) \<Rightarrow> Inr b | _ \<Rightarrow> Inl OSError)"

text \<open>\<^verbatim>\<open>f = open(p, 'r'); f.read()\<close>: the bytes decoded with the default codec.\<close>

definition read_text :: "host \<Rightarrow> string \<Rightarrow> world \<Rightarrow> error + string" where
  "read_text h p w = (case read_bytes p w of Inl e \<Rightarrow> Inl e | Inr b \<Rightarrow> decode h b)"

text \<open>\<^verbatim>\<open>shutil.copy(src, dst)\<close>: into the directory \<open>dst\<close> under the source's base name
  when \<open>dst\<close> is a directory; SameFileError, FileNotFoundError and IsADirectoryError
  are OSErrors.\<close>

definition copy :: "string \<Rightarrow> string \<Rightarrow> world \<Rightarrow> (error + unit) \<times> world" where
  "copy src dst w =
     (let s = resolve w src;
          d0 = resolve w dst;
          d = (if files w d0 = Some Dir then d0 @ path_sep @ basename s else d0)
      in case files w s of
           Some (File b) \<Rightarrow>
             (if s = d \<or> files w d = Some Dir then (Inl OSError, w)
              else (Inr (), w\<lparr>files := (files w)(d \<mapsto> File b)\<rparr>))
         | _ \<Rightarrow> (Inl OSError, w))"

text \<open>\<^verbatim>\<open>shutil.rmtree(d)\<close>: the directory and everything below it.\<close>

definition rmtree :: "string \<Rightarrow> world \<Rightarrow> (error + unit) \<times> world" where
  "rmtree d w =
     (let p = resolve w d
      in if files w p = Some Dir
         then (Inr (), w\<lparr>files := (\<lambda>q. if under p q then None else files w q)\<rparr>)
         else (Inl OSError, w))"

text \<open>\<^verbatim>\<open>subprocess.call(cmd, shell=True, env=env)\<close>, run in the working directory. Without
  \<^verbatim>\<open>env=\<close> the child inherits \<^verbatim>\<open>os.environ\<close>.\<close>

definition call :: "host \<Rightarrow> string \<Rightarrow> environment \<Rightarrow> world \<Rightarrow> call_result \<times> world" where
  "call h cmd env w =
     (case run h cmd env (cwd w) (files w) of
        (r, fs') \<Rightarrow> (r, w\<lparr>files := fs', calls := calls w @ [(cmd, env)]\<rparr>))"

section \<open>minidom and \<^verbatim>\<open>_fix_gnuplot_svg_size\<close>\<close>

text \<open>A parsed document is its root element. \<^verbatim>\<open>getElementsByTagName\<close> lists the elements
  of that name in document order, the root included.\<close>

fun getElementsByTagName :: "string \<Rightarrow> xml \<Rightarrow> xml list" where
  "getElementsByTagName t (Text s) = []"
| "getElementsByTagName t (Element n attrs kids) =
     (if n = t then [Element n attrs kids] else []) @ concat (map (getElementsByTagName t) kids)"

text \<open>\<^verbatim>\<open>getAttribute\<close> gives the empty string for a missing attribute.\<close>

fun getAttribute :: "xml \<Rightarrow> string \<Rightarrow> string" where
  "getAttribute (Element n attrs kids) k = (case map_of attrs k of None \<Rightarrow> [] | Some v \<Rightarrow> v)"
| "getAttribute (Text s) k = []"

text \<open>\<^verbatim>\<open>setAttribute\<close> replaces the value in place or adds the attribute last.\<close>

fun set_attr :: "string \<Rightarrow> string \<Rightarrow> (string \<times> string) list \<Rightarrow> (string \<times> string) list" where
  "set_attr k v [] = [(k, v)]"
| "set_attr k v ((k', v') # kvs) = (if k' = k then (k, v) # kvs else (k', v') # set_attr k v kvs)"

fun setAttribute :: "xml \<Rightarrow> string \<Rightarrow> string \<Rightarrow> xml" where
  "setAttribute (Element n attrs kids) k v = Element n (set_attr k v attrs) kids"
| "setAttribute (Text s) k v = Text s"

text \<open>Lines 94 to 97 of the source: the requested size, else the third and fourth
  entries of the viewBox, which are strings.\<close>

definition svg_dimensions :: "(int \<times> int) option \<Rightarrow> string list \<Rightarrow> error + pyval \<times> pyval" where
  "svg_dimensions size_opt viewbox =
     (case size_opt of
        Some (width, height) \<Rightarrow> Inr (PInt width, PInt height)
      | None \<Rightarrow>
          (case unpack2 (drop 2 viewbox) of
             Inl e \<Rightarrow> Inl e
           | Inr (width, height) \<Rightarrow> Inr (PStr width, PStr height)))"

text \<open>\<^verbatim>\<open>_fix_gnuplot_svg_size(self, image, size=None)\<close>, lines 77 to 101. The result is
  the serialisation of the one \<^verbatim>\<open>svg\<close> element.\<close>

definition fix_gnuplot_svg_size :: "host \<Rightarrow> string \<Rightarrow> (int \<times> int) option \<Rightarrow> error + string" where
  "fix_gnuplot_svg_size h img size_opt =
     (case parse_xml h img of
        None \<Rightarrow> Inl ExpatError
      | Some doc \<Rightarrow>
          (case unpack1 (getElementsByTagName ''svg'' doc) of
             Inl e \<Rightarrow> Inl e
           | Inr svg \<Rightarrow>
               (case svg_dimensions size_opt (py_split CHR '' '' (getAttribute svg ''viewBox'')) of
                  Inl e \<Rightarrow> Inl e
                | Inr (width, height) \<Rightarrow>
                    (case pyformat ''%dpx'' (Positional [width]) of
                       Inl e \<Rightarrow> Inl e
                     | Inr ws \<Rightarrow>
                         (case pyformat ''%dpx'' (Positional [height]) of
                            Inl e \<Rightarrow> Inl e
                          | Inr hs \<Rightarrow>
                              Inr (toxml h (setAttribute (setAttribute svg ''width'' ws) ''height'' hs)))))))"

section \<open>The subprocess helpers\<close>

text \<open>\<^verbatim>\<open>_write_thapl(self, code, encoding, dir)\<close>, lines 103 to 105.\<close>

definition write_thapl :: "host \<Rightarrow> string \<Rightarrow> string \<Rightarrow> string \<Rightarrow> world \<Rightarrow> (error + unit) \<times> world" where
  "write_thapl h src enc dir w = write_text h (dir @ path_sep @ ''magic.thapl'') enc src w"

text \<open>Lines 119 to 123: the copy of the environment the engine gets.\<close>

definition latex_env :: "environment \<Rightarrow> string \<Rightarrow> environment" where
  "latex_env env current_dir =
     (case env ''TEXINPUTS'' of
        Some t \<Rightarrow> env(''TEXINPUTS'' \<mapsto> current_dir @ pathsep @ t)
      | None \<Rightarrow> env(''TEXINPUTS'' \<mapsto> ''.'' @ pathsep @ current_dir @ pathsep @ pathsep))"

text \<open>Lines 127 to 136, and the same shape in both converters: a non-zero exit code and
  a failed launch each print one line on the diagnostic stream. The flag is \<^verbatim>\<open>ret_log\<close>.\<close>

definition report_call :: "string \<Rightarrow> string \<Rightarrow> call_result \<Rightarrow> world \<Rightarrow> bool \<times> world" where
  "report_call terminated failed r w =
     (case r of
        Exit retcode \<Rightarrow>
          (if retcode \<noteq> 0
           then (True, print_err (terminated @ '' '' @ str_int (- retcode)) w)
           else (False, w))
      | LaunchFailed msg \<Rightarrow> (True, print_err (failed @ '' '' @ msg) w))"


text \<open>\<^verbatim>\<open>_run_latex(self, code, encoding, dir)\<close>, lines 107 to 149. The result is \<^verbatim>\<open>log\<close>:
  \<open>None\<close> unless the engine failed and \<^verbatim>\<open>thapl.log\<close> could be read. Only an OSError is
  caught when the log is read, so a decoding error leaves the function with the working
  directory still switched.\<close>

definition run_latex :: "host \<Rightarrow> string \<Rightarrow> string \<Rightarrow> string \<Rightarrow> world \<Rightarrow> (error + string option) \<times> world" where
  "run_latex h tex enc dir w =
     (case write_text h (dir @ path_sep @ ''magic.tex'') enc tex w of
        (Inl e, w1) \<Rightarrow> (Inl e, w1)
      | (Inr u, w1) \<Rightarrow>
          (let current_dir = cwd w1;
               w2 = w1\<lparr>cwd := resolve w1 dir\<rparr>;
               env = latex_env (environ w2) current_dir
           in case call h ''xelatex --shell-escape magic.tex'' env w2 of
                (r, w3) \<Rightarrow>
                  (case report_call ''LaTeX terminated with signal'' ''LaTeX execution failed:'' r w3 of
                     (ret_log, w4) \<Rightarrow>
                       (if ret_log then
                          (case read_text h ''thapl.log'' w4 of
                             Inl e \<Rightarrow>
                               (if e = OSError
                                then (Inr None, (print_err ''No log file generated.'' w4)\<lparr>cwd := current_dir\<rparr>)
                                else (Inl e, w4))
                           | Inr log \<Rightarrow> (Inr (Some log), w4\<lparr>cwd := current_dir\<rparr>))
                        else (Inr None, w4\<lparr>cwd := current_dir\<rparr>)))))"

text \<open>\<^verbatim>\<open>_convert_pdf_to_svg(self, dir)\<close>, lines 151 to 165.\<close>

definition convert_pdf_to_svg :: "host \<Rightarrow> string \<Rightarrow> world \<Rightarrow> world" where
  "convert_pdf_to_svg h dir w =
     (let current_dir = cwd w;
          w1 = w\<lparr>cwd := resolve w dir\<rparr>
      in case call h ''pdf2svg magic.pdf magic.svg'' (environ w1) w1 of
           (r, w2) \<Rightarrow>
             (case report_call ''pdf2svg terminated with signal'' ''pdf2svg execution failed:'' r w2 of
                (failed, w3) \<Rightarrow> w3\<lparr>cwd := current_dir\<rparr>))"

text \<open>\<^verbatim>\<open>_convert_png_to_jpg(self, dir, imagemagick_path)\<close>, lines 167 to 184.\<close>

definition convert_png_to_jpg :: "host \<Rightarrow> string \<Rightarrow> string \<Rightarrow> world \<Rightarrow> (error + unit) \<times> world" where
  "convert_png_to_jpg h dir imagemagick_path w =
     (let current_dir = cwd w;
          w1 = w\<lparr>cwd := resolve w dir\<rparr>
      in case pyformat ''%s magic.png -quality 100 -background white -flatten magic.jpg''
                (Positional [PStr imagemagick_path]) of
           Inl e \<Rightarrow> (Inl e, w1)
         | Inr cmd \<Rightarrow>
             (case call h cmd (environ w1) w1 of
                (r, w2) \<Rightarrow>
                  (case report_call ''convert terminated with signal'' ''convert execution failed:'' r w2 of
                     (failed, w3) \<Rightarrow> (Inr (), w3\<lparr>cwd := current_dir\<rparr>))))"

section \<open>The cell magic \<^verbatim>\<open>thapl\<close>\<close>

subsection \<open>The parsed arguments\<close>

text \<open>
  \<^verbatim>\<open>parse_argstring\<close> is IPython's; the model starts from the Namespace it returns. Its
  attributes are the destinations the \<^verbatim>\<open>@argument\<close> decorators of lines 188 to 286
  declare, and nothing else. Every option has \<^verbatim>\<open>type=str\<close>; \<^verbatim>\<open>scale\<close> alone has a default
  that is not a string (the integer 1) and \<^verbatim>\<open>save\<close> defaults to \<^verbatim>\<open>None\<close>.
\<close>

record args =
  scale :: pyval
  size_arg :: string
  format :: string
  encoding :: string
  preamble :: string
  package :: string
  library :: string
  save :: "string option"
  imagemagick :: string
  pictureoptions :: string
  showlatex :: bool
  circuitikz :: bool
  tikzoptions :: string
  code :: "string list"

definition default_args :: args where
  "default_args =
     \<lparr>scale = PInt 1, size_arg = ''400,240'', format = ''png'', encoding = ''utf-8'',
      preamble = [], package = [], library = [], save = None, imagemagick = ''convert'',
      pictureoptions = [], showlatex = False, circuitikz = False, tikzoptions = [],
      code = []\<rparr>"

text \<open>\<^verbatim>\<open>vars(args)\<close>: the attributes of the Namespace, by name.\<close>

definition namespace :: "args \<Rightarrow> (string \<times> pyval) list" where
  "namespace a =
     [(''scale'', scale a),
      (''size'', PStr (size_arg a)),
      (''format'', PStr (format a)),
      (''encoding'', PStr (encoding a)),
      (''preamble'', PStr (preamble a)),
      (''package'', PStr (package a)),
      (''library'', PStr (library a)),
      (''save'', (case save a of None \<Rightarrow> PNone | Some p \<Rightarrow> PStr p)),
      (''imagemagick'', PStr (imagemagick a)),
      (''pictureoptions'', PStr (pictureoptions a)),
      (''showlatex'', PBool (showlatex a)),
      (''circuitikz'', PBool (circuitikz a)),
      (''tikzoptions'', PStr (tikzoptions a)),
      (''code'', PStrList (code a))]"

text \<open>\<^verbatim>\<open>args.name\<close>: AttributeError for a name the Namespace does not have.\<close>

definition getattr :: "args \<Rightarrow> string \<Rightarrow> error + pyval" where
  "getattr a name = (case map_of (namespace a) name of None \<Rightarrow> Inl AttributeError | Some v \<Rightarrow> Inr v)"

text \<open>The local variables that lines 295 to 305 assign.\<close>

record thapl_vars =
  v_scale :: pyval
  v_size :: string
  v_width :: string
  v_height :: string
  v_plot_format :: string
  v_encoding :: string
  v_tikz_library :: "string list"
  v_latex_package :: "string list"
  v_imagemagick_path :: string
  v_picture_options :: string
  v_tikz_options :: string
  v_python_path :: pyval

text \<open>Lines 295 to 305, in the order of the source: the unpacking of the size on line 297
  comes before the read of \<^verbatim>\<open>args.python_path\<close> on line 305.\<close>

definition read_arguments :: "args \<Rightarrow> error + thapl_vars" where
  "read_arguments a =
     (case unpack2 (py_split CHR '','' (size_arg a)) of
        Inl e \<Rightarrow> Inl e
      | Inr (width, height) \<Rightarrow>
          (case getattr a ''python_path'' of
             Inl e \<Rightarrow> Inl e
           | Inr python_path \<Rightarrow>
               Inr \<lparr>v_scale = scale a, v_size = size_arg a, v_width = width, v_height = height,
                    v_plot_format = format a, v_encoding = encoding a,
                    v_tikz_library = py_split CHR '','' (library a),
                    v_latex_package = py_split CHR '','' (package a),
                    v_imagemagick_path = imagemagick a,
                    v_picture_options = pictureoptions a,
                    v_tikz_options = tikzoptions a,
                    v_python_path = python_path\<rparr>))"

subsection \<open>The document, lines 339 to 378\<close>

definition tex_documentclass :: string where
  "tex_documentclass = bsl # bsl # ''documentclass{beamer}''"

definition tex_usepackage_tikz :: string where
  "tex_usepackage_tikz = bsl # ''usepackage[%(tikz_options)s]{%(tikz_package)s}'' @ [nl]"

definition tex_bashful :: string where
  "tex_bashful = bsl # ''usepackage{bashful}'' @ [nl]"

definition tex_package :: string where
  "tex_package = nl # bsl # ''usepackage{%s}'' @ nl # ''            ''"

definition tex_library :: string where
  "tex_library = nl # bsl # ''usetikzlibrary{%s}'' @ nl # ''            ''"

definition tex_preamble :: string where
  "tex_preamble = nl # ''%s'' @ nl # ''            ''"

definition tex_begin :: string where
  "tex_begin = nl # bsl # ''begin{document}'' @ nl # ''        ''"

definition tex_bash :: string where
  "tex_bash =
     nl # bsl # ''bash[stdoutFile='' @ bsl # ''jobname.thapl.tex]'' @
     nl # ''PYTHONPATH='' @ CHR 0x22 # ''%(python_path) python3 -m thapl.main ./magic.thapl'' @
     nl # bsl # ''END'' @
     nl #
     nl # bsl # ''include{'' @ bsl # ''jobname.thapl}'' @
     nl # ''        ''"

definition tex_end :: string where
  "tex_end = nl # bsl # ''end{document}'' @ nl # ''        ''"

text \<open>The loops of lines 347 to 355: one formatted entry per item, in order.\<close>

fun format_each :: "string \<Rightarrow> string list \<Rightarrow> error + string list" where
  "format_each t [] = Inr []"
| "format_each t (x # xs) =
     (case pyformat t (Positional [PStr x]) of
        Inl e \<Rightarrow> Inl e
      | Inr s \<Rightarrow> (case format_each t xs of Inl e \<Rightarrow> Inl e | Inr ss \<Rightarrow> Inr (s # ss)))"

text \<open>\<^verbatim>\<open>locals()\<close> where the templates are formatted: the local variables that are
  strings, numbers, flags or lists of strings. The templates look up \<^verbatim>\<open>tikz_options\<close>,
  \<^verbatim>\<open>tikz_package\<close> and \<^verbatim>\<open>python_path\<close>.\<close>

definition thapl_locals ::
    "thapl_vars \<Rightarrow> string \<Rightarrow> string \<Rightarrow> string \<Rightarrow> string \<Rightarrow> string \<Rightarrow> (string \<times> pyval) list" where
  "thapl_locals v src plot_dir add_params tikz_env tikz_package =
     [(''scale'', v_scale v),
      (''size'', PStr (v_size v)),
      (''width'', PStr (v_width v)),
      (''height'', PStr (v_height v)),
      (''plot_format'', PStr (v_plot_format v)),
      (''encoding'', PStr (v_encoding v)),
      (''tikz_library'', PStrList (v_tikz_library v)),
      (''latex_package'', PStrList (v_latex_package v)),
      (''imagemagick_path'', PStr (v_imagemagick_path v)),
      (''picture_options'', PStr (v_picture_options v)),
      (''tikz_options'', PStr (v_tikz_options v)),
      (''python_path'', v_python_path v),
      (''code'', PStr src),
      (''plot_dir'', PStr plot_dir),
      (''add_params'', PStr add_params),
      (''tikz_env'', PStr tikz_env),
      (''tikz_package'', PStr tikz_package)]"

text \<open>The list \<^verbatim>\<open>tex\<close> as lines 339 to 376 build it, joined on line 378. Every \<^verbatim>\<open>%\<close> of
  the source is an application of \<open>pyformat\<close>; the first that raises ends the
  assembly. The preamble is a string, never \<^verbatim>\<open>None\<close>, so the test of line 357 always
  holds.\<close>

definition thapl_tex :: "args \<Rightarrow> thapl_vars \<Rightarrow> (string \<times> pyval) list \<Rightarrow> error + string" where
  "thapl_tex a v locs =
     (case pyformat tex_usepackage_tikz (Named locs) of
        Inl e \<Rightarrow> Inl e
      | Inr tikz_line \<Rightarrow>
     (case format_each tex_package (v_latex_package v) of
        Inl e \<Rightarrow> Inl e
      | Inr pkgs \<Rightarrow>
     (case format_each tex_library (v_tikz_library v) of
        Inl e \<Rightarrow> Inl e
      | Inr libs \<Rightarrow>
     (case pyformat tex_preamble (Positional [PStr (preamble a)]) of
        Inl e \<Rightarrow> Inl e
      | Inr pre \<Rightarrow>
     (case pyformat tex_begin (Named locs) of
        Inl e \<Rightarrow> Inl e
      | Inr begin_doc \<Rightarrow>
     (case pyformat tex_bash (Named locs) of
        Inl e \<Rightarrow> Inl e
      | Inr bash \<Rightarrow>
     (case pyformat tex_end (Named locs) of
        Inl e \<Rightarrow> Inl e
      | Inr end_doc \<Rightarrow>
          Inr (concat ([tex_documentclass, tikz_line, tex_bashful] @ pkgs @ libs @
                       [pre, begin_doc, bash, end_doc])))))))))"

subsection \<open>Publication, lines 397 to 430\<close>

definition mimetypes :: "(string \<times> string) list" where
  "mimetypes =
     [(''png'', ''image/png''), (''svg'', ''image/svg+xml''),
      (''jpg'', ''image/jpeg''), (''jpeg'', ''image/jpeg'')]"

definition key :: string where
  "key = ''ThaplMagic.Thapl''"

text \<open>\<^verbatim>\<open>[int(s) for s in xs]\<close>.\<close>

fun int_each :: "string list \<Rightarrow> error + int list" where
  "int_each [] = Inr []"
| "int_each (s # ss) =
     (case py_int s of
        Inl e \<Rightarrow> Inl e
      | Inr n \<Rightarrow> (case int_each ss of Inl e \<Rightarrow> Inl e | Inr ns \<Rightarrow> Inr (n # ns)))"

text \<open>The body of the \<^verbatim>\<open>try\<close> of lines 406 to 412; its value is \<^verbatim>\<open>display_data\<close>. The
  size is converted to integers here, after the image has been read.\<close>

definition load_image ::
    "host \<Rightarrow> string \<Rightarrow> string \<Rightarrow> string \<Rightarrow> world \<Rightarrow> error + (string \<times> (string \<times> string) list) list" where
  "load_image h image_filename plot_format sz w =
     (case read_bytes image_filename w of
        Inl e \<Rightarrow> Inl e
      | Inr img \<Rightarrow>
     (case pyformat ''image/%s'' (Positional [PStr plot_format]) of
        Inl e \<Rightarrow> Inl e
      | Inr fallback \<Rightarrow>
     (let plot_mime_type = (case map_of mimetypes plot_format of Some m \<Rightarrow> m | None \<Rightarrow> fallback)
      in case int_each (py_split CHR '','' sz) of
           Inl e \<Rightarrow> Inl e
         | Inr ns \<Rightarrow>
     (case unpack2 ns of
        Inl e \<Rightarrow> Inl e
      | Inr (width, height) \<Rightarrow>
     (case (if plot_format = ''svg'' then fix_gnuplot_svg_size h img (Some (width, height))
            else Inr img) of
        Inl e \<Rightarrow> Inl e
      | Inr img' \<Rightarrow> Inr [(key, [(plot_mime_type, img')])])))))"

text \<open>The loop of lines 423 to 430.\<close>

fun publish_all :: "string \<Rightarrow> (string \<times> (string \<times> string) list) list \<Rightarrow> world \<Rightarrow> world" where
  "publish_all plot_format [] w = w"
| "publish_all plot_format ((tag, disp_d) # rest) w =
     publish_all plot_format rest
       (publish \<lparr>source = tag, data = disp_d,
                 metadata = (if plot_format = ''svg'' then Some [(''isolated'', ''true'')] else None)\<rparr> w)"

text \<open>Lines 397 to 430: conversion, the image, the saved copy, the removal of the
  directory, publication. Only an OSError raised inside the \<^verbatim>\<open>try\<close> is handled; the
  copy of line 419 and the removal of line 421 stand outside it.\<close>

definition thapl_publish :: "host \<Rightarrow> args \<Rightarrow> thapl_vars \<Rightarrow> string \<Rightarrow> world \<Rightarrow> outcome \<times> world" where
  "thapl_publish h a v plot_dir w =
     (case (if v_plot_format v = ''jpg'' \<or> v_plot_format v = ''jpeg''
            then convert_png_to_jpg h plot_dir (v_imagemagick_path v) w
            else if v_plot_format v = ''svg'' then (Inr (), convert_pdf_to_svg h plot_dir w)
            else (Inr (), w)) of
        (Inl e, w1) \<Rightarrow> (Raised e, w1)
      | (Inr u, w1) \<Rightarrow>
     (case pyformat ''%s/tikz.%s'' (Positional [PStr plot_dir, PStr (v_plot_format v)]) of
        Inl e \<Rightarrow> (Raised e, w1)
      | Inr image_filename \<Rightarrow>
     (case (case load_image h image_filename (v_plot_format v) (v_size v) w1 of
              Inl e \<Rightarrow> if e = OSError then Inr ([], print_err ''No image generated.'' w1) else Inl e
            | Inr display_data \<Rightarrow> Inr (display_data, w1)) of
        Inl e \<Rightarrow> (Raised e, w1)
      | Inr (display_data, w2) \<Rightarrow>
     (case (case save a of None \<Rightarrow> (Inr (), w2) | Some dst \<Rightarrow> copy image_filename dst w2) of
        (Inl e, w3) \<Rightarrow> (Raised e, w3)
      | (Inr u, w3) \<Rightarrow>
     (case rmtree plot_dir w3 of
        (Inl e, w4) \<Rightarrow> (Raised e, w4)
      | (Inr u, w4) \<Rightarrow> (Returned, publish_all (v_plot_format v) display_data w4))))))"

subsection \<open>Rendering, lines 380 to 395\<close>

text \<open>\<^verbatim>\<open>if latex_log:\<close> holds for a string that is not empty.\<close>

definition truthy :: "string option \<Rightarrow> bool" where
  "truthy x = (case x of None \<Rightarrow> False | Some s \<Rightarrow> s \<noteq> [])"

text \<open>Lines 380 to 395, then publication. \<^verbatim>\<open>print(code)\<close> writes to standard output.
  Both \<^verbatim>\<open>return\<close>s leave the function before line 421.\<close>

definition thapl_render ::
    "host \<Rightarrow> args \<Rightarrow> thapl_vars \<Rightarrow> string \<Rightarrow> string \<Rightarrow> string \<Rightarrow> world \<Rightarrow> outcome \<times> world" where
  "thapl_render h a v src tex plot_dir w =
     (if showlatex a then (Returned, print_out src w)
      else
        (case write_thapl h src (v_encoding v) plot_dir w of
           (Inl e, w1) \<Rightarrow> (Raised e, w1)
         | (Inr u, w1) \<Rightarrow>
        (case run_latex h tex (v_encoding v) plot_dir w1 of
           (Inl e, w2) \<Rightarrow> (Raised e, w2)
         | (Inr latex_log, w2) \<Rightarrow>
             (if truthy latex_log
              then (Returned,
                    publish \<lparr>source = key,
                             data = [(''text/plain'', (case latex_log of None \<Rightarrow> [] | Some s \<Rightarrow> s))],
                             metadata = None\<rparr> w2)
              else thapl_publish h a v plot_dir w2))))"

subsection \<open>The body, lines 308 to 378, and the entry point\<close>

definition thapl_body :: "host \<Rightarrow> args \<Rightarrow> thapl_vars \<Rightarrow> string option \<Rightarrow> world \<Rightarrow> outcome \<times> world" where
  "thapl_body h a v cell w =
     (let src = concat (code a) @ (case cell of None \<Rightarrow> [] | Some c \<Rightarrow> c)
      in case mkdtemp h w of
           (plot_dir, w1) \<Rightarrow>
             (let add_params =
                    (if v_plot_format v = ''png'' \<or> v_plot_format v = ''jpg'' \<or> v_plot_format v = ''jpeg''
                     then ''density=300,'' else []);
                  tikz_env = (if circuitikz a then ''circuitikz'' else ''tikzpicture'');
                  tikz_package = (if circuitikz a then ''circuitikz'' else ''tikz'')
              in case thapl_tex a v (thapl_locals v src plot_dir add_params tikz_env tikz_package) of
                   Inl e \<Rightarrow> (Raised e, w1)
                 | Inr tex \<Rightarrow> thapl_render h a v src tex plot_dir w1))"

text \<open>\<^verbatim>\<open>thapl(self, line, cell, local_ns=None)\<close>, lines 288 to 430, from the parsed
  arguments on.\<close>

definition thapl :: "host \<Rightarrow> args \<Rightarrow> string option \<Rightarrow> world \<Rightarrow> outcome \<times> world" where
  "thapl h a cell w =
     (case read_arguments a of
        Inl e \<Rightarrow> (Raised e, w)
      | Inr v \<Rightarrow> thapl_body h a v cell w)"

section \<open>A concrete host and world\<close>

text \<open>
  For evaluating the definitions: a host whose every command exits with the given
  result after writing the given files into its working directory, whose codecs are the
  identity (any codec name but \<^verbatim>\<open>bogus\<close> is known), and whose XML parser knows one
  document; a serialiser for elements; and a world with two directories.
\<close>

fun attrs_text :: "(string \<times> string) list \<Rightarrow> string" where
  "attrs_text [] = []"
| "attrs_text ((k, v) # kvs) = '' '' @ k @ ''='' @ CHR 0x22 # v @ CHR 0x22 # attrs_text kvs"

fun xml_text :: "xml \<Rightarrow> string" where
  "xml_text (Text s) = s"
| "xml_text (Element n attrs kids) =
     ''<'' @ n @ attrs_text attrs @
     (if kids = [] then ''/>'' else ''>'' @ concat (map xml_text kids) @ ''</'' @ n @ ''>'')"

definition example_svg :: xml where
  "example_svg = Element ''svg'' [(''viewBox'', ''0 0 10 20''), (''width'', ''5pt'')] [Text ''plot'']"

definition example_host :: "call_result \<Rightarrow> (string \<times> string) list \<Rightarrow> host" where
  "example_host r outputs =
     \<lparr>mkdtemp_name = (\<lambda>fs. ''/tmp/tmpthapl''),
      run = (\<lambda>cmd env dir fs.
               (r, fs ++ map_of (map (\<lambda>(name, b). (dir @ ''/'' @ name, File b)) outputs))),
      encode = (\<lambda>enc txt. if enc = ''bogus'' then Inl LookupError else Inr txt),
      decode = (\<lambda>b. Inr b),
      parse_xml = (\<lambda>b. if b = xml_text example_svg then Some example_svg else None),
      toxml = xml_text\<rparr>"

definition example_world :: world where
  "example_world =
     \<lparr>files = [''/tmp'' \<mapsto> Dir, ''/home/user'' \<mapsto> Dir],
      cwd = ''/home/user'',
      environ = [''HOME'' \<mapsto> ''/home/user''],
      stdout = [], stderr = [], published = [], calls = []\<rparr>"

text \<open>The local variables for given arguments, had \<^verbatim>\<open>python_path\<close> been an attribute
  with the given value.\<close>

definition example_vars :: "args \<Rightarrow> pyval \<Rightarrow> thapl_vars" where
  "example_vars a python_path =
     \<lparr>v_scale = scale a, v_size = size_arg a,
      v_width = hd (py_split CHR '','' (size_arg a)),
      v_height = last (py_split CHR '','' (size_arg a)),
      v_plot_format = format a, v_encoding = encoding a,
      v_tikz_library = py_split CHR '','' (library a),
      v_latex_package = py_split CHR '','' (package a),
      v_imagemagick_path = imagemagick a,
      v_picture_options = pictureoptions a,
      v_tikz_options = tikzoptions a,
      v_python_path = python_path\<rparr>"

text \<open>The example world after \<^verbatim>\<open>mkdtemp\<close>.\<close>

definition example_workspace :: world where
  "example_workspace = example_world\<lparr>files := (files example_world)(''/tmp/tmpthapl'' \<mapsto> Dir)\<rparr>"

section \<open>Basic facts\<close>

lemma py_split_nonempty: "py_split sep s \<noteq> []"
  by (induction s) (auto split: list.splits)

lemma unpack2_length:
  "unpack2 xs = (if length xs = 2 then Inr (xs ! 0, xs ! 1) else Inl ValueError)"
  by (cases xs rule: list.exhaust; simp add: unpack2_def split: list.splits)

section \<open>The entry point never gets past its arguments\<close>

text \<open>No \<^verbatim>\<open>@argument\<close> declares \<^verbatim>\<open>python_path\<close>, so the Namespace has no such attribute.\<close>

lemma getattr_python_path: "getattr a ''python_path'' = Inl AttributeError"
  by (simp add: getattr_def namespace_def)

lemma read_arguments_raises:
  "read_arguments a =
     Inl (if length (py_split CHR '','' (size_arg a)) = 2 then AttributeError else ValueError)"
  by (simp add: read_arguments_def unpack2_length getattr_python_path)

text \<open>
  Claim C3, as the code has it. Every invocation raises before line 308, and the world
  is as it was: no directory was made, no document assembled, no subprocess run. The
  exception is the AttributeError of line 305 exactly when the size splits into two
  parts at its commas; any other size raises ValueError on line 297 already, and
  \<^verbatim>\<open>args.python_path\<close> is not read at all.
\<close>

theorem thapl_raises_before_workspace:
  "getattr a ''python_path'' = Inl AttributeError \<and>
   thapl h a cell w =
     (Raised (if length (py_split CHR '','' (size_arg a)) = 2 then AttributeError else ValueError), w)"
  by (simp add: thapl_def read_arguments_raises getattr_python_path)

theorem thapl_raises_before_workspace_witness:
  "thapl (example_host (Exit 0) []) default_args (Some ''x'') example_world =
     (Raised AttributeError, example_world)"
  using thapl_raises_before_workspace [of default_args "example_host (Exit 0) []" "Some ''x''" example_world]
  by (simp add: default_args_def)

text \<open>
  Against C3 as stated (the attribute access fails for every input): with \<^verbatim>\<open>-s 400\<close> the
  invocation ends on line 297 with a ValueError.
\<close>

theorem size_unpack_precedes_python_path:
  "read_arguments (default_args\<lparr>size_arg := ''400''\<rparr>) = Inl ValueError \<and>
   thapl (example_host (Exit 0) []) (default_args\<lparr>size_arg := ''400''\<rparr>) (Some ''x'') example_world =
     (Raised ValueError, example_world)"
  by (simp add: thapl_def read_arguments_def unpack2_def default_args_def)

section \<open>The environment of the LaTeX engine\<close>

lemma report_call_frame:
  "report_call t f r w = (b, w') \<Longrightarrow>
     calls w' = calls w \<and> environ w' = environ w \<and> files w' = files w \<and> cwd w' = cwd w \<and>
     published w' = published w \<and> stdout w' = stdout w"
  by (auto simp: report_call_def print_err_def split: call_result.splits if_splits)

text \<open>
  Claim C9. \<^verbatim>\<open>_run_latex\<close> starts the engine once, unless the document could not be
  written, in which case it starts nothing. The engine receives the process
  environment with one entry changed: \<^verbatim>\<open>TEXINPUTS\<close> is the caller's working directory,
  a path separator and the old value when there was one, and otherwise a dot, a path
  separator, the caller's working directory and two path separators. \<^verbatim>\<open>os.environ\<close>
  itself is the same after the call as before.
\<close>

theorem run_latex_texinputs:
  "calls (snd (run_latex h tex enc dir w)) =
     calls w @
     (case encode h enc tex of
        Inl e \<Rightarrow> []
      | Inr b \<Rightarrow>
          [(''xelatex --shell-escape magic.tex'',
            (environ w)(''TEXINPUTS'' \<mapsto>
               (case environ w ''TEXINPUTS'' of
                  Some t \<Rightarrow> cwd w @ pathsep @ t
                | None \<Rightarrow> ''.'' @ pathsep @ cwd w @ pathsep @ pathsep)))]) \<and>
   environ (snd (run_latex h tex enc dir w)) = environ w"
  by (auto simp: run_latex_def write_text_def call_def latex_env_def print_err_def Let_def
        dest!: report_call_frame
        split: sum.splits prod.splits option.splits if_splits)

theorem run_latex_texinputs_witness:
  "calls (snd (run_latex (example_host (Exit 0) []) ''doc'' ''utf-8'' ''/tmp/tmpthapl'' example_world)) =
     [(''xelatex --shell-escape magic.tex'',
       [''HOME'' \<mapsto> ''/home/user'', ''TEXINPUTS'' \<mapsto> ''.:/home/user::''])] \<and>
   calls (snd (run_latex (example_host (Exit 1) []) ''doc'' ''utf-8'' ''/tmp/tmpthapl''
                 (example_world\<lparr>environ := [''TEXINPUTS'' \<mapsto> ''/texmf'']\<rparr>))) =
     [(''xelatex --shell-escape magic.tex'', [''TEXINPUTS'' \<mapsto> ''/home/user:/texmf''])] \<and>
   environ (snd (run_latex (example_host (Exit 0) []) ''doc'' ''utf-8'' ''/tmp/tmpthapl'' example_world)) =
     [''HOME'' \<mapsto> ''/home/user'']"
  using run_latex_texinputs [of "example_host (Exit 0) []" "''doc''" "''utf-8''" "''/tmp/tmpthapl''" example_world]
    run_latex_texinputs [of "example_host (Exit 1) []" "''doc''" "''utf-8''" "''/tmp/tmpthapl''"
       "example_world\<lparr>environ := [''TEXINPUTS'' \<mapsto> ''/texmf'']\<rparr>"]
  by (simp add: example_host_def example_world_def pathsep_def)

section \<open>Decimal strings: \<^verbatim>\<open>int(str(n)) == n\<close>\<close>
















section \<open>The size of a published SVG\<close>


lemma fmt_px_str: "pyformat ''%dpx'' (Positional [PStr s]) = Inl TypeError"
  by (simp add: pyformat_def next_arg_def convert_def)



text \<open>Without a size the dimensions come from the viewBox as strings, and \<^verbatim>\<open>'%dpx' % width\<close>
  rejects a string: the call site of line 411 always passes a size, and only that path
  yields a result.\<close>

lemma fix_gnuplot_svg_size_fallback:
  "fix_gnuplot_svg_size h img None = Inr s \<Longrightarrow> False"
  by (auto simp: fix_gnuplot_svg_size_def svg_dimensions_def fmt_px_str
      split: option.splits sum.splits)












section \<open>The pipeline from line 380 on\<close>



lemma resolve_rel: "\<not> isabs p \<Longrightarrow> resolve w p = cwd w @ ''/'' @ p"
  by (simp add: resolve_def path_sep_def)











lemma resolve_frame [simp]:
  "resolve (w\<lparr>files := f\<rparr>) p = resolve w p"
  "resolve (w\<lparr>calls := c\<rparr>) p = resolve w p"
  "resolve (w\<lparr>stderr := e\<rparr>) p = resolve w p"
  "resolve (w\<lparr>stdout := s\<rparr>) p = resolve w p"
  "resolve (w\<lparr>published := d\<rparr>) p = resolve w p"
  by (simp_all add: resolve_def)





section \<open>A failed engine run\<close>




text \<open>The definitions a concrete run unfolds.\<close>

lemmas eval_defs =
  thapl_render_def thapl_publish_def write_thapl_def write_text_def run_latex_def
  convert_pdf_to_svg_def convert_png_to_jpg_def call_def report_call_def latex_env_def
  read_text_def read_bytes_def load_image_def copy_def rmtree_def mkdtemp_def
  print_err_def print_out_def publish_def truthy_def resolve_def isabs_def under_def
  path_sep_def pathsep_def basename_def key_def mimetypes_def unpack2_def unpack1_def
  pyformat_def next_arg_def convert_def py_int_def py_strip_def is_space_def digit_val_def
  str_int_def str_nat.simps digit_char_def
  example_host_def example_vars_def example_workspace_def example_world_def default_args_def
  Let_def


section \<open>The document is never assembled\<close>

lemma fmt_package:
  "pyformat tex_package (Positional [PStr x]) =
     Inr (nl # bsl # ''usepackage{'' @ x @ ''}'' @ nl # ''            '')"
  by (simp add: pyformat_def tex_package_def next_arg_def convert_def)

lemma fmt_library:
  "pyformat tex_library (Positional [PStr x]) =
     Inr (nl # bsl # ''usetikzlibrary{'' @ x @ ''}'' @ nl # ''            '')"
  by (simp add: pyformat_def tex_library_def next_arg_def convert_def)

lemma fmt_preamble: "pyformat tex_preamble (Positional [PStr x]) = Inr (nl # x @ nl # ''            '')"
  by (simp add: pyformat_def tex_preamble_def next_arg_def convert_def)

text \<open>The loop of lines 347 to 350 by itself: one line per entry, in the order of the entries.\<close>

lemma format_each_package:
  "format_each tex_package xs =
     Inr (map (\<lambda>x. nl # bsl # ''usepackage{'' @ x @ ''}'' @ nl # ''            '') xs)"
  by (induction xs) (simp_all add: fmt_package)

lemma format_each_library:
  "format_each tex_library xs =
     Inr (map (\<lambda>x. nl # bsl # ''usetikzlibrary{'' @ x @ ''}'' @ nl # ''            '') xs)"
  by (induction xs) (simp_all add: fmt_library)

lemma fmt_tikz:
  "pyformat tex_usepackage_tikz (Named (thapl_locals v src plot_dir ap te tp)) =
     Inr (bsl # ''usepackage['' @ v_tikz_options v @ '']{'' @ tp @ ''}'' @ [nl])"
  by (simp add: pyformat_def tex_usepackage_tikz_def thapl_locals_def next_arg_def convert_def)

lemma fmt_begin: "pyformat tex_begin (Named m) = Inr tex_begin"
  by (simp add: pyformat_def tex_begin_def)

text \<open>Lines 366 to 372: after the key \<^verbatim>\<open>python_path\<close> the blank is a flag and \<^verbatim>\<open>p\<close> is taken for
  the conversion type, which it is not. Whatever \<^verbatim>\<open>python_path\<close> holds, the operator raises
  ValueError (unsupported format character).\<close>

lemma fmt_bash: "pyformat tex_bash (Named (thapl_locals v src plot_dir ap te tp)) = Inl ValueError"
  by (simp add: pyformat_def tex_bash_def thapl_locals_def next_arg_def convert_def)

lemma thapl_tex_raises: "thapl_tex a v (thapl_locals v src plot_dir ap te tp) = Inl ValueError"
  by (simp add: thapl_tex_def fmt_tikz format_each_package format_each_library fmt_preamble
      fmt_begin fmt_bash)



text \<open>
  Claim C8, where the code departs from it. With \<^verbatim>\<open>-p pgfplots,textcomp\<close> the invocation
  raises AttributeError on line 305 and the world is untouched, so no document exists.
  Were line 305 passed, the assembly itself would raise ValueError on lines 366 to 372.
  The loop of lines 347 to 350 alone does what the claim says: it yields the line for
  \<^verbatim>\<open>pgfplots\<close> and then the line for \<^verbatim>\<open>textcomp\<close>.
\<close>

theorem package_option_no_document:
  "thapl (example_host (Exit 0) []) (default_args\<lparr>package := ''pgfplots,textcomp''\<rparr>) (Some ''x'')
      example_world = (Raised AttributeError, example_world) \<and>
   thapl_tex (default_args\<lparr>package := ''pgfplots,textcomp''\<rparr>)
      (example_vars (default_args\<lparr>package := ''pgfplots,textcomp''\<rparr>) (PStr ''/thapl''))
      (thapl_locals (example_vars (default_args\<lparr>package := ''pgfplots,textcomp''\<rparr>) (PStr ''/thapl''))
         ''x'' ''/tmp/tmpthapl'' ''density=300,'' ''tikzpicture'' ''tikz'') = Inl ValueError \<and>
   format_each tex_package (py_split CHR '','' ''pgfplots,textcomp'') =
     Inr [nl # bsl # ''usepackage{pgfplots}'' @ nl # ''            '',
          nl # bsl # ''usepackage{textcomp}'' @ nl # ''            '']"
  by (simp add: thapl_def read_arguments_raises default_args_def thapl_tex_raises fmt_package)

section \<open>What is left behind, and what gets out\<close>


text \<open>
  Claim C2, where the code departs from it. The invocation with default options raises
  AttributeError out of the entry point. From line 380 on, with \<^verbatim>\<open>-S\<close> given and no image
  produced, the missing image is reported on the diagnostic stream and then the copy
  of line 419, which stands outside the \<^verbatim>\<open>try\<close>, raises an OSError that nothing catches;
  the directory is not removed.
\<close>

theorem exceptions_leave_the_entry_point:
  "thapl (example_host (Exit 0) []) default_args (Some ''x'') example_world =
     (Raised AttributeError, example_world) \<and>
   fst (thapl_render (example_host (Exit 0) []) (default_args\<lparr>save := Some ''/home/user/out.png''\<rparr>)
          (example_vars (default_args\<lparr>save := Some ''/home/user/out.png''\<rparr>) (PStr ''/thapl''))
          ''x'' ''doc'' ''/tmp/tmpthapl'' example_workspace) = Raised OSError \<and>
   stderr (snd (thapl_render (example_host (Exit 0) []) (default_args\<lparr>save := Some ''/home/user/out.png''\<rparr>)
          (example_vars (default_args\<lparr>save := Some ''/home/user/out.png''\<rparr>) (PStr ''/thapl''))
          ''x'' ''doc'' ''/tmp/tmpthapl'' example_workspace)) = [''No image generated.''] \<and>
   files (snd (thapl_render (example_host (Exit 0) []) (default_args\<lparr>save := Some ''/home/user/out.png''\<rparr>)
          (example_vars (default_args\<lparr>save := Some ''/home/user/out.png''\<rparr>) (PStr ''/thapl''))
          ''x'' ''doc'' ''/tmp/tmpthapl'' example_workspace)) ''/tmp/tmpthapl'' = Some Dir"
  by (simp add: thapl_def read_arguments_raises) (simp add: eval_defs)

section \<open>\<^verbatim>\<open>--showlatex\<close>\<close>





section \<open>The size option\<close>




end
